theory Spec2Isabelle
  imports Complex_Main "HOL-Library.Word" "HOL-Library.AList" "HOL-Library.Signed_Division"
begin

section \<open>Time and durations\<close>

text \<open>
  A Go \<open>time.Time\<close> is modelled by the number of nanoseconds since Go's zero instant
  (January 1, year 1, 00:00 UTC), so that \<open>t.IsZero()\<close> is \<open>t = 0\<close>. A \<open>time.Duration\<close> is an
  \<open>int64\<close> count of nanoseconds; it is modelled as an \<open>int\<close>, and the one operation of the
  program that can leave the \<open>int64\<close> range, \<open>Time.Sub\<close>, saturates as Go's does. The other
  duration arithmetic of the program multiplies an \<open>int16\<close> by \<open>time.Second\<close> and subtracts
  \<open>100 * time.Second\<close>, which stays far inside the range.
\<close>

type_synonym time = int
type_synonym duration = int

definition minDuration :: duration where
  "minDuration = - (2 ^ 63)"

definition maxDuration :: duration where
  "maxDuration = 2 ^ 63 - 1"

definition Second :: duration where
  "Second = 1000000000"

definition Sub :: "time \<Rightarrow> time \<Rightarrow> duration" where
  "Sub t u =
     (if t - u > maxDuration then maxDuration
      else if t - u < minDuration then minDuration
      else t - u)"

definition IsZero :: "time \<Rightarrow> bool" where
  "IsZero t \<longleftrightarrow> t = 0"

text \<open>Seconds between Go's zero instant and the Unix epoch.\<close>

definition unixToInternal :: int where
  "unixToInternal = 62135596800"

definition Unix :: "time \<Rightarrow> int" where
  "Unix t = t div Second - unixToInternal"

text \<open>
  \<open>Duration.Seconds\<close>: Go divides and takes the remainder truncating towards zero. Gauge
  values are \<open>float64\<close> in the program; they are modelled as exact reals.
\<close>

definition Seconds :: "duration \<Rightarrow> real" where
  "Seconds d = real_of_int (d sdiv Second) + real_of_int (d smod Second) / 1000000000"

section \<open>Errors, device records and the log\<close>

text \<open>
  A Go \<open>error\<close> value: the program builds one itself (a bad HTTP status); every other
  error comes from a library (transport, URL parsing, JSON decoding) and is kept by its text.
  A nil error is \<open>None\<close>.
\<close>

datatype error = BadHTTPCode int | LibError string

text \<open>
  Of \<open>hydrao.ShowerHead\<close> the model keeps the fields that the collector reads. The
  declarations of the \<open>Showers\<close> field, of its element type and of \<open>hydrao.Threshold\<close> are
  not part of the source at hand; their fields are those that \<open>collectShowerHeadData\<close>
  reads, numeric ones by the value of their conversion to \<open>float64\<close> and \<open>ShowerID\<close> by
  what \<open>fmt.Sprint\<close> prints for it.
\<close>

record Threshold =
  Liter :: real
  Color :: string

record Shower =
  sh_DeviceUUID :: string
  ShowerID :: string
  sh_Flow :: real
  Duration :: real
  Temperature :: real
  Volume :: real
  SoapingTime :: real

record ShowerHead =
  DeviceUUID :: string
  ThresholdRequest :: string
  Label :: string
  PreviousFlow :: "16 word"
  Type :: string
  LastSyncDate :: time
  RefShowerDuration :: "16 word"
  IsLastSyncComplete :: "16 word"
  Flow :: real
  Showers :: "Shower list"

text \<open>
  The go-kit logger: an entry is a level and the key/value sequence handed to \<open>Log\<close>.
\<close>

datatype level = Debug | Info | Error

datatype logval =
    LStr string
  | LInt int
  | LErr "error option"
  | LHeads "ShowerHead list option"

type_synonym log_entry = "level \<times> logval list"

section \<open>The session and the API client\<close>

record Config =
  Email :: string
  Password :: string
  ApiKey :: string

record SessionInfo =
  AccessToken :: string
  RefreshToken :: string
  ExpiresIn :: "16 word"
  TokenRefresh :: time
  Config :: Config

text \<open>The three request bodies that the client encodes, and the requests it builds.\<close>

datatype body = NoBody | LoginBody string string | RefreshBody string

record Request =
  Method :: string
  URL :: string
  Header :: "(string \<times> string) list"
  ReqBody :: body

record Response =
  StatusCode :: int
  RespBody :: string

record Client =
  httpResponse :: "Response option"
  hydrao :: SessionInfo
  showerHeads :: "ShowerHead list option"

text \<open>
  What the client does to the outside is kept in the state: \<open>wire\<close> lists the requests
  handed to \<open>httpClient.Do\<close>, oldest first, and \<open>logged\<close> the log entries.
\<close>

record St =
  client :: Client
  wire :: "Request list"
  logged :: "log_entry list"

text \<open>
  The libraries the client calls are parameters: \<open>urlParse\<close> is the validation in
  \<open>http.NewRequest\<close>, \<open>Do\<close> is \<open>httpClient.Do\<close>, and the two decoders are
  \<open>json.NewDecoder(resp.Body).Decode\<close> into the session and into the device list. A decoder
  writes into its holder as it goes, so it returns the holder as it left it together with
  its error.
\<close>

record Env =
  urlParse :: "string \<Rightarrow> error option"
  Do :: "Request \<Rightarrow> error + Response"
  DecodeSession :: "string \<Rightarrow> SessionInfo \<Rightarrow> error option \<times> SessionInfo"
  DecodeShowerHeads ::
    "string \<Rightarrow> ShowerHead list option \<Rightarrow> error option \<times> ShowerHead list option"

definition baseURL :: string where
  "baseURL = ''https://api.hydrao.com/''"

definition authURL :: string where
  "authURL = baseURL @ ''sessions''"

definition showerheadsURL :: string where
  "showerheadsURL = baseURL @ ''shower-heads/''"

definition NewClient :: "Config \<Rightarrow> Client" where
  "NewClient config =
     \<lparr>httpResponse = None,
      hydrao = \<lparr>AccessToken = '''', RefreshToken = '''', ExpiresIn = 0, TokenRefresh = 0,
                Config = \<lparr>Email = Email config, Password = Password config,
                           ApiKey = ApiKey config\<rparr>\<rparr>,
      showerHeads = None\<rparr>"

definition NewRequest :: "Env \<Rightarrow> string \<Rightarrow> string \<Rightarrow> body \<Rightarrow> error + Request" where
  "NewRequest env method url data =
     (case urlParse env url of
        Some err \<Rightarrow> Inl err
      | None \<Rightarrow> Inr \<lparr>Method = method, URL = url, Header = [], ReqBody = data\<rparr>)"

definition Header_Set :: "string \<Rightarrow> string \<Rightarrow> Request \<Rightarrow> Request" where
  "Header_Set k v req = req\<lparr>Header := AList.update k v (Header req)\<rparr>"

definition Log :: "level \<Rightarrow> logval list \<Rightarrow> St \<Rightarrow> St" where
  "Log lvl keyvals s = s\<lparr>logged := logged s @ [(lvl, keyvals)]\<rparr>"

text \<open>\<open>do\<close>: the request goes out, and the response is kept in the client.\<close>

definition do_req :: "Env \<Rightarrow> Request \<Rightarrow> St \<Rightarrow> (error + Response) \<times> St" where
  "do_req env req s =
     (let s1 = s\<lparr>wire := wire s @ [req]\<rparr> in
      case Do env req of
        Inl err \<Rightarrow> (Inl err, s1\<lparr>client := (client s1)\<lparr>httpResponse := None\<rparr>\<rparr>)
      | Inr resp \<Rightarrow> (Inr resp, s1\<lparr>client := (client s1)\<lparr>httpResponse := Some resp\<rparr>\<rparr>))"

definition doHTTPPost :: "Env \<Rightarrow> string \<Rightarrow> Config \<Rightarrow> body \<Rightarrow> St \<Rightarrow> (error + Response) \<times> St" where
  "doHTTPPost env url config data s =
     (case NewRequest env ''POST'' url data of
        Inl err \<Rightarrow> (Inl err, s)
      | Inr req \<Rightarrow>
          do_req env
            (Header_Set ''x-api-key'' (ApiKey config)
              (Header_Set ''Accept'' ''application/json''
                (Header_Set ''Content-Type'' ''application/json'' req))) s)"

text \<open>
  \<open>processHTTPResponse\<close>, with the decoder of the holder it is called on. Its callers
  return before they call it when the request failed, so its \<open>err\<close> argument is nil.
\<close>

definition processHTTPResponse ::
  "Response \<Rightarrow> (string \<Rightarrow> 'h \<Rightarrow> error option \<times> 'h) \<Rightarrow> 'h \<Rightarrow> error option \<times> 'h" where
  "processHTTPResponse resp decode holder =
     (if StatusCode resp \<noteq> 200 then (Some (BadHTTPCode (StatusCode resp)), holder)
      else decode (RespBody resp) holder)"

text \<open>
  \<open>RefreshSession\<close>; \<open>now\<close> is what \<open>time.Now()\<close> returns in it. Encoding a struct of one
  string cannot fail.
\<close>

definition RefreshSession :: "Env \<Rightarrow> time \<Rightarrow> St \<Rightarrow> error option \<times> St" where
  "RefreshSession env now s =
     (let h = hydrao (client s) in
      case doHTTPPost env authURL (Config h) (RefreshBody (RefreshToken h)) s of
        (Inl err, s1) \<Rightarrow> (Some err, s1)
      | (Inr resp, s1) \<Rightarrow>
          (case processHTTPResponse resp (DecodeSession env) (hydrao (client s1)) of
             (Some err, h1) \<Rightarrow> (Some err, s1\<lparr>client := (client s1)\<lparr>hydrao := h1\<rparr>\<rparr>)
           | (None, h1) \<Rightarrow>
               (None, s1\<lparr>client := (client s1)\<lparr>hydrao := h1\<lparr>TokenRefresh := now\<rparr>\<rparr>\<rparr>)))"

definition NewSession :: "Env \<Rightarrow> time \<Rightarrow> St \<Rightarrow> error option \<times> St" where
  "NewSession env now s =
     (let h = hydrao (client s) in
      case doHTTPPost env authURL (Config h)
             (LoginBody (Email (Config h)) (Password (Config h))) s of
        (Inl err, s1) \<Rightarrow> (Some err, s1)
      | (Inr resp, s1) \<Rightarrow>
          (case processHTTPResponse resp (DecodeSession env) (hydrao (client s1)) of
             (Some err, h1) \<Rightarrow> (Some err, s1\<lparr>client := (client s1)\<lparr>hydrao := h1\<rparr>\<rparr>)
           | (None, h1) \<Rightarrow>
               (None, s1\<lparr>client := (client s1)\<lparr>hydrao := h1\<lparr>TokenRefresh := now\<rparr>\<rparr>\<rparr>)))"

text \<open>
  \<open>doHTTPGet\<close>; \<open>now\<close> is what \<open>time.Now()\<close> returns in it and \<open>now'\<close> what it returns in
  \<open>RefreshSession\<close>, when that is called.
\<close>

definition doHTTPGet ::
  "Env \<Rightarrow> time \<Rightarrow> time \<Rightarrow> string \<Rightarrow> Config \<Rightarrow> body \<Rightarrow> St \<Rightarrow> (error + Response) \<times> St" where
  "doHTTPGet env now now' url config data s =
     (case NewRequest env ''GET'' url data of
        Inl err \<Rightarrow> (Inl err, s)
      | Inr req \<Rightarrow>
          (let h = hydrao (client s);
               (err, s1) =
                 (if Sub now (TokenRefresh h) > sint (ExpiresIn h) * Second - 100 * Second
                  then RefreshSession env now'
                         (Log Debug [LStr ''msg'', LStr ''token expires minus 100 %d'',
                                     LInt (sint (ExpiresIn h) * Second - 100 * Second)]
                           (Log Debug [LStr ''msg'', LStr ''time since last refresh %d'',
                                       LInt (Sub now (TokenRefresh h))]
                             (Log Debug [LStr ''msg'', LStr ''token expires in value %d'',
                                         LInt (sint (ExpiresIn h))] s)))
                  else (None, s))
           in case err of
                Some e \<Rightarrow> (Inl e, s1)
              | None \<Rightarrow>
                  do_req env
                    (Header_Set ''Authorization'' (AccessToken (hydrao (client s1)))
                      (Header_Set ''x-api-key'' (ApiKey config)
                        (Header_Set ''Accept'' ''application/json''
                          (Header_Set ''Content-Type'' ''application/json'' req)))) s1))"

definition GetShowerheads ::
  "Env \<Rightarrow> time \<Rightarrow> time \<Rightarrow> St \<Rightarrow> (error + ShowerHead list option) \<times> St" where
  "GetShowerheads env now now' s =
     (case doHTTPGet env now now' showerheadsURL (Config (hydrao (client s))) NoBody s of
        (Inl err, s1) \<Rightarrow> (Inl err, s1)
      | (Inr resp, s1) \<Rightarrow>
          (case processHTTPResponse resp (DecodeShowerHeads env) (showerHeads (client s1)) of
             (Some err, hs) \<Rightarrow> (Inl err, s1\<lparr>client := (client s1)\<lparr>showerHeads := hs\<rparr>\<rparr>)
           | (None, hs) \<Rightarrow> (Inr hs, s1\<lparr>client := (client s1)\<lparr>showerHeads := hs\<rparr>\<rparr>)))"

section \<open>The collector\<close>

subsection \<open>Metrics\<close>

record Desc =
  fqName :: string
  variableLabels :: "string list"

datatype ValueType = CounterValue | GaugeValue | UntypedValue

record Metric =
  m_desc :: Desc
  m_type :: ValueType
  m_value :: real
  m_labels :: "string list"

definition NewDesc :: "string \<Rightarrow> string list \<Rightarrow> Desc" where
  "NewDesc name labels = \<lparr>fqName = name, variableLabels = labels\<rparr>"

definition metricPrefix :: string where
  "metricPrefix = ''hydrao_''"

definition hydraoUpDesc :: Desc where
  "hydraoUpDesc = NewDesc (metricPrefix @ ''up'') []"

definition refreshIntervalDesc :: Desc where
  "refreshIntervalDesc = NewDesc (metricPrefix @ ''refresh_interval_seconds'') []"

definition refreshPrefix :: string where
  "refreshPrefix = metricPrefix @ ''last_refresh_''"

definition refreshTimestampDesc :: Desc where
  "refreshTimestampDesc = NewDesc (refreshPrefix @ ''time'') []"

definition refreshDurationDesc :: Desc where
  "refreshDurationDesc = NewDesc (metricPrefix @ refreshPrefix @ ''duration_seconds'') []"

definition cacheTimestampDesc :: Desc where
  "cacheTimestampDesc = NewDesc (metricPrefix @ ''cache_updated_time'') []"

definition showerHeadsLabels :: "string list" where
  "showerHeadsLabels = [''device_uuid'', ''type'', ''label'']"

definition showerHeadsPrefix :: string where
  "showerHeadsPrefix = metricPrefix @ ''showersheads_''"

definition showerHeadDesc :: Desc where
  "showerHeadDesc = NewDesc (showerHeadsPrefix @ ''device'') showerHeadsLabels"

definition updatedDesc :: Desc where
  "updatedDesc = NewDesc (showerHeadsPrefix @ ''updated'') showerHeadsLabels"

definition showerHeadRefShowerDurationDesc :: Desc where
  "showerHeadRefShowerDurationDesc =
     NewDesc (showerHeadsPrefix @ ''ref_shower_duration'') showerHeadsLabels"

definition showerHeadRefFlowDesc :: Desc where
  "showerHeadRefFlowDesc = NewDesc (showerHeadsPrefix @ ''ref_flow'') showerHeadsLabels"

definition showerHeadAvgFlowDesc :: Desc where
  "showerHeadAvgFlowDesc = NewDesc (showerHeadsPrefix @ ''avg_flow'') showerHeadsLabels"

definition showerHeadLastSyncIsCompleteDesc :: Desc where
  "showerHeadLastSyncIsCompleteDesc =
     NewDesc (showerHeadsPrefix @ ''last_sync_is_complete'') showerHeadsLabels"

definition showerHeadThresholdRequestDesc :: Desc where
  "showerHeadThresholdRequestDesc =
     NewDesc (showerHeadsPrefix @ ''threshold_request'') (showerHeadsLabels @ [''color''])"

definition showersLabels :: "string list" where
  "showersLabels = [''device_uuid'', ''shower_id'']"

definition showersPrefix :: string where
  "showersPrefix = metricPrefix @ ''showers_''"

definition showerFlowDesc :: Desc where
  "showerFlowDesc = NewDesc (showersPrefix @ ''flow'') showersLabels"

definition showerDurationDesc :: Desc where
  "showerDurationDesc = NewDesc (showersPrefix @ ''duration'') showersLabels"

definition showerTemperatureDesc :: Desc where
  "showerTemperatureDesc = NewDesc (showersPrefix @ ''temperature'') showersLabels"

definition showerVolumeDesc :: Desc where
  "showerVolumeDesc = NewDesc (showersPrefix @ ''volume'') showersLabels"

definition showerSoapingTimeDesc :: Desc where
  "showerSoapingTimeDesc = NewDesc (showersPrefix @ ''soaping_time'') showersLabels"

text \<open>
  A scrape's channel and the log, threaded through the functions that send and log.
\<close>

type_synonym io = "Metric list \<times> log_entry list"

text \<open>
  \<open>sendMetric\<close>: \<open>prometheus.NewConstMetric\<close> refuses a number of label values that
  differs from the descriptor's number of labels; then the error is logged and nothing is
  sent. (Its other refusals, an invalid descriptor or a label value that is not UTF-8, do
  not arise for the descriptors above and for strings decoded from JSON.) A message built by
  \<open>fmt.Sprintf\<close> is kept as its format followed by its arguments.
\<close>

definition sendMetric :: "Desc \<Rightarrow> ValueType \<Rightarrow> real \<Rightarrow> string list \<Rightarrow> io \<Rightarrow> io" where
  "sendMetric desc valueType val labelValues io =
     (if length labelValues \<noteq> length (variableLabels desc)
      then (fst io, snd io @ [(Error, [LStr ''msg'', LStr ''Error creating %s metric: %s'',
                                       LStr (fqName updatedDesc),
                                       LErr (Some (LibError ''inconsistent label cardinality''))])])
      else (fst io @ [\<lparr>m_desc = desc, m_type = valueType, m_value = val,
                       m_labels = labelValues\<rparr>], snd io))"

definition convertTime :: "time \<Rightarrow> real" where
  "convertTime t = (if IsZero t then 0 else real_of_int (Unix t))"

subsection \<open>The collector's state\<close>

text \<open>
  \<open>sync.RWMutex\<close>: whether a writer holds it, and how many readers do.
\<close>

record RWMutex =
  writer :: bool
  readers :: nat

record HydraoCollector =
  refreshInterval :: duration
  lastRefresh :: time
  lastRefreshError :: "error option"
  lastRefreshDuration :: duration
  cacheLock :: RWMutex
  cacheTimestamp :: time
  cachedShowerHeadsData :: "ShowerHead list option"

definition New :: HydraoCollector where
  "New = \<lparr>refreshInterval = 10, lastRefresh = 0, lastRefreshError = None,
          lastRefreshDuration = 0, cacheLock = \<lparr>writer = False, readers = 0\<rparr>,
          cacheTimestamp = 0, cachedShowerHeadsData = None\<rparr>"

subsection \<open>The parts of \<open>Collect\<close>\<close>

text \<open>The value of the up gauge (lines 191 to 194 of the collector).\<close>

definition upValue :: "HydraoCollector \<Rightarrow> real" where
  "upValue c = (if IsZero (lastRefresh c) \<or> lastRefreshError c \<noteq> None then 0 else 1)"

text \<open>The four gauges sent before the read lock is taken (lines 191 to 198).\<close>

definition Collect_top :: "HydraoCollector \<Rightarrow> io \<Rightarrow> io" where
  "Collect_top c io =
     sendMetric refreshDurationDesc GaugeValue (Seconds (lastRefreshDuration c)) []
       (sendMetric refreshTimestampDesc GaugeValue (convertTime (lastRefresh c)) []
         (sendMetric refreshIntervalDesc GaugeValue (Seconds (refreshInterval c)) []
           (sendMetric hydraoUpDesc GaugeValue (upValue c) [] io)))"

text \<open>
  \<open>collectShowerHeadData\<close>. \<open>unmarshal\<close> is \<open>json.Unmarshal\<close> into the nil slice
  \<open>thresholds\<close>: it returns its error and the slice as it left it.
\<close>

definition collectShowerHeadData ::
  "(string \<Rightarrow> error option \<times> Threshold list) \<Rightarrow> ShowerHead \<Rightarrow> string \<Rightarrow> string \<Rightarrow> string
     \<Rightarrow> io \<Rightarrow> io" where
  "collectShowerHeadData unmarshal showerhead device_uuid showerHeadType label io =
     (let io1 =
            sendMetric showerHeadLastSyncIsCompleteDesc GaugeValue
                (real_of_int (sint (IsLastSyncComplete showerhead)))
                [device_uuid, showerHeadType, label]
              (sendMetric showerHeadAvgFlowDesc GaugeValue (Flow showerhead)
                  [device_uuid, showerHeadType, label]
                (sendMetric showerHeadRefFlowDesc GaugeValue
                    (real_of_int (sint (PreviousFlow showerhead)))
                    [device_uuid, showerHeadType, label]
                  (sendMetric showerHeadRefShowerDurationDesc GaugeValue
                      (real_of_int (sint (RefShowerDuration showerhead)))
                      [device_uuid, showerHeadType, label]
                    (sendMetric updatedDesc GaugeValue
                        (convertTime (LastSyncDate showerhead))
                        [device_uuid, showerHeadType, label]
                      (sendMetric showerHeadDesc GaugeValue 1
                          [device_uuid, showerHeadType, label] io)))));
          (err, thresholds) = unmarshal (ThresholdRequest showerhead);
          io2 = (case err of
                   None \<Rightarrow> io1
                 | Some e \<Rightarrow>
                     (fst io1, snd io1 @ [(Error, [LStr ''msg'',
                        LStr ''Error unmarshalling thresholds: %s'', LErr (Some e)])]));
          io3 = fold (\<lambda>threshold.
                   sendMetric showerHeadThresholdRequestDesc GaugeValue (Liter threshold)
                     [device_uuid, showerHeadType, label, Color threshold]) thresholds io2
      in fold (\<lambda>shower io.
             sendMetric showerSoapingTimeDesc GaugeValue (SoapingTime shower)
                 [sh_DeviceUUID shower, ShowerID shower]
               (sendMetric showerVolumeDesc GaugeValue (Volume shower)
                   [sh_DeviceUUID shower, ShowerID shower]
                 (sendMetric showerTemperatureDesc GaugeValue (Temperature shower)
                     [sh_DeviceUUID shower, ShowerID shower]
                   (sendMetric showerDurationDesc GaugeValue (Duration shower)
                       [sh_DeviceUUID shower, ShowerID shower]
                     (sendMetric showerFlowDesc GaugeValue (sh_Flow shower)
                         [sh_DeviceUUID shower, ShowerID shower] io)))))
           (Showers showerhead) io3)"

text \<open>The cache timestamp gauge, sent under the read lock (line 203).\<close>

definition Collect_cacheTimestamp :: "time \<Rightarrow> io \<Rightarrow> io" where
  "Collect_cacheTimestamp ts io =
     sendMetric cacheTimestampDesc GaugeValue (convertTime ts) [] io"

text \<open>The device groups of the snapshot read under the read lock (lines 204 to 212).\<close>

definition Collect_devices ::
  "(string \<Rightarrow> error option \<times> Threshold list) \<Rightarrow> ShowerHead list option \<Rightarrow> io \<Rightarrow> io" where
  "Collect_devices unmarshal cached io =
     (let io1 = (fst io, snd io @ [(Debug, [LStr ''msg'', LStr ''Cached ShowerHeads Data %s'',
                                            LHeads cached])])
      in case cached of
           None \<Rightarrow> io1
         | Some heads \<Rightarrow>
             fold (\<lambda>showerHead.
                    collectShowerHeadData unmarshal showerHead (DeviceUUID showerHead)
                      (Type showerHead) (Label showerHead)) heads io1)"

subsection \<open>Scrapes and refresh tasks as interleaved steps\<close>

text \<open>
  \<open>Collect\<close> starts \<open>RefreshData\<close> with a \<open>go\<close> statement, so a scrape and the refresh
  tasks run interleaved. The system is the collector together with the refresh tasks
  launched so far and the scrapes begun so far, each with its program counter and local
  variables, and the log. Memory is sequentially consistent in the model, and the device
  list that \<open>getShowerheads\<close> returns is a value of its own: that the caller may go on
  writing to the slice's backing array is outside the collector and not modelled.

  A refresh task, \<open>RefreshData(now)\<close>, goes through these steps:
  \<^item> \<open>Start\<close>: the debug log, \<open>c.lastRefresh = now\<close>, and \<open>c.clock()\<close> read for the deferred
    closure (lines 217 to 222);
  \<^item> \<open>Fetch\<close>: \<open>c.getShowerheads()\<close> returns and \<open>c.lastRefreshError = err\<close>; on an error
    it is logged and the function returns (lines 224 to 230);
  \<^item> \<open>Lock\<close>: \<open>c.cacheLock.Lock()\<close> succeeds and \<open>c.cacheTimestamp = now\<close> (lines 232 to 234);
  \<^item> \<open>Write\<close>: \<open>c.cachedShowerHeadsData = showerHeads\<close> and the deferred \<open>Unlock\<close>
    (lines 235 and 233);
  \<^item> \<open>Return\<close>: the deferred closure sets \<open>c.lastRefreshDuration\<close> from a new reading of
    the clock (line 221).

  A scrape, \<open>Collect\<close>, goes through these steps:
  \<^item> \<open>Scrape\<close>: the clock is read, a refresh task is launched when one is due, and the four
    gauges that need no lock are sent (lines 184 to 198);
  \<^item> \<open>RLock\<close>: \<open>c.cacheLock.RLock()\<close> succeeds, and the cache timestamp is read and sent
    (lines 200 to 203);
  \<^item> \<open>Read\<close>: the snapshot is read, its device groups are sent, and the deferred
    \<open>RUnlock\<close> runs (lines 204 to 212 and 201).
\<close>

datatype rpc = Spawned | Fetching | Committing | Writing | Returning | Finished

record task =
  t_now :: time
  t_start :: time
  t_result :: "(error + ShowerHead list option) option"
  t_pc :: rpc

datatype spc = Waiting | Reading | Returned

record scrape =
  sc_sent :: "Metric list"
  sc_ts :: time
  sc_data :: "ShowerHead list option"
  sc_pc :: spc

record Sys =
  coll :: HydraoCollector
  tasks :: "task list"
  scrapes :: "scrape list"
  syslog :: "log_entry list"

datatype event =
    Scrape time
  | RLock nat
  | Read nat
  | Start nat time
  | Fetch nat "error + ShowerHead list option"
  | Lock nat
  | Write nat
  | Return nat time

definition New_sys :: Sys where
  "New_sys = \<lparr>coll = New, tasks = [], scrapes = [],
              syslog = [(Info, [LStr ''msg'', LStr ''Setup Hydrao exporter''])]\<rparr>"

fun step :: "(string \<Rightarrow> error option \<times> Threshold list) \<Rightarrow> event \<Rightarrow> Sys \<Rightarrow> Sys option" where
  "step um (Scrape now) s =
     (let c = coll s;
          lg = syslog s @ [(Debug, [LStr ''msg'', LStr ''Prometheus Collect''])];
          due = (Sub now (lastRefresh c) \<ge> refreshInterval c);
          lg1 = (if due then lg @ [(Debug, [LStr ''msg'', LStr ''Refresh Datas''])] else lg);
          ts = (if due
                then tasks s @ [\<lparr>t_now = now, t_start = 0, t_result = None, t_pc = Spawned\<rparr>]
                else tasks s);
          io = Collect_top c ([], lg1)
      in Some (s\<lparr>tasks := ts,
                 scrapes := scrapes s @
                   [\<lparr>sc_sent = fst io, sc_ts = 0, sc_data = None, sc_pc = Waiting\<rparr>],
                 syslog := snd io\<rparr>))"
| "step um (RLock i) s =
     (if i < length (scrapes s) \<and> sc_pc (scrapes s ! i) = Waiting
         \<and> \<not> writer (cacheLock (coll s))
      then
        (let c = coll s;
             sc = scrapes s ! i;
             c1 = c\<lparr>cacheLock := (cacheLock c)\<lparr>readers := readers (cacheLock c) + 1\<rparr>\<rparr>;
             io = Collect_cacheTimestamp (cacheTimestamp c1) (sc_sent sc, syslog s)
         in Some (s\<lparr>coll := c1,
                    scrapes := (scrapes s)[i := sc\<lparr>sc_sent := fst io,
                                  sc_ts := cacheTimestamp c1, sc_pc := Reading\<rparr>],
                    syslog := snd io\<rparr>))
      else None)"
| "step um (Read i) s =
     (if i < length (scrapes s) \<and> sc_pc (scrapes s ! i) = Reading
      then
        (let c = coll s;
             sc = scrapes s ! i;
             io = Collect_devices um (cachedShowerHeadsData c) (sc_sent sc, syslog s);
             c1 = c\<lparr>cacheLock := (cacheLock c)\<lparr>readers := readers (cacheLock c) - 1\<rparr>\<rparr>
         in Some (s\<lparr>coll := c1,
                    scrapes := (scrapes s)[i := sc\<lparr>sc_sent := fst io,
                                  sc_data := cachedShowerHeadsData c, sc_pc := Returned\<rparr>],
                    syslog := snd io\<rparr>))
      else None)"
| "step um (Start i start) s =
     (if i < length (tasks s) \<and> t_pc (tasks s ! i) = Spawned
      then
        (let c = coll s;
             t = tasks s ! i
         in Some (s\<lparr>coll := c\<lparr>lastRefresh := t_now t\<rparr>,
                    tasks := (tasks s)[i := t\<lparr>t_start := start, t_pc := Fetching\<rparr>],
                    syslog := syslog s @
                      [(Debug, [LStr ''Refreshing data. Time since last refresh: %s'',
                                LInt (Sub (t_now t) (lastRefresh c))])]\<rparr>))
      else None)"
| "step um (Fetch i res) s =
     (if i < length (tasks s) \<and> t_pc (tasks s ! i) = Fetching
      then
        (let c = coll s;
             t = tasks s ! i
         in case res of
              Inl err \<Rightarrow>
                Some (s\<lparr>coll := c\<lparr>lastRefreshError := Some err\<rparr>,
                        tasks := (tasks s)[i := t\<lparr>t_result := Some res, t_pc := Returning\<rparr>],
                        syslog := syslog s @
                          [(Error, [LStr ''Error during showerheads refresh: %s'',
                                    LErr (Some err)])]\<rparr>)
            | Inr heads \<Rightarrow>
                Some (s\<lparr>coll := c\<lparr>lastRefreshError := None\<rparr>,
                        tasks := (tasks s)[i := t\<lparr>t_result := Some res,
                                                  t_pc := Committing\<rparr>]\<rparr>))
      else None)"
| "step um (Lock i) s =
     (if i < length (tasks s) \<and> t_pc (tasks s ! i) = Committing
         \<and> \<not> writer (cacheLock (coll s)) \<and> readers (cacheLock (coll s)) = 0
      then
        (let c = coll s;
             t = tasks s ! i
         in Some (s\<lparr>coll := c\<lparr>cacheLock := (cacheLock c)\<lparr>writer := True\<rparr>,
                              cacheTimestamp := t_now t\<rparr>,
                    tasks := (tasks s)[i := t\<lparr>t_pc := Writing\<rparr>]\<rparr>))
      else None)"
| "step um (Write i) s =
     (if i < length (tasks s) \<and> t_pc (tasks s ! i) = Writing
      then
        (let c = coll s;
             t = tasks s ! i
         in case t_result t of
              Some (Inr heads) \<Rightarrow>
                Some (s\<lparr>coll := c\<lparr>cachedShowerHeadsData := heads,
                                  cacheLock := (cacheLock c)\<lparr>writer := False\<rparr>\<rparr>,
                        tasks := (tasks s)[i := t\<lparr>t_pc := Returning\<rparr>]\<rparr>)
            | _ \<Rightarrow> None)
      else None)"
| "step um (Return i fin) s =
     (if i < length (tasks s) \<and> t_pc (tasks s ! i) = Returning
      then
        (let c = coll s;
             t = tasks s ! i
         in Some (s\<lparr>coll := c\<lparr>lastRefreshDuration := Sub fin (t_start t)\<rparr>,
                    tasks := (tasks s)[i := t\<lparr>t_pc := Finished\<rparr>]\<rparr>))
      else None)"

fun run :: "(string \<Rightarrow> error option \<times> Threshold list) \<Rightarrow> event list \<Rightarrow> Sys \<Rightarrow> Sys option" where
  "run um [] s = Some s"
| "run um (e # es) s = (case step um e s of None \<Rightarrow> None | Some s' \<Rightarrow> run um es s')"

text \<open>The refresh tasks that have been launched and have not returned.\<close>

definition in_flight :: "Sys \<Rightarrow> task list" where
  "in_flight s = filter (\<lambda>t. t_pc t \<noteq> Finished) (tasks s)"


text \<open>
  \<open>Collect\<close> run from its first statement to its return with nothing interleaved; the
  scrape it begins is the next one of the system.
\<close>

definition Collect ::
  "(string \<Rightarrow> error option \<times> Threshold list) \<Rightarrow> time \<Rightarrow> Sys \<Rightarrow> Sys option" where
  "Collect um now s =
     run um [Scrape now, RLock (length (scrapes s)), Read (length (scrapes s))] s"

section \<open>Histories, expected output and invariants\<close>

text \<open>
  What a sequence of events says about the refresh attempts: whether some task has started,
  and what the fetch that returned last has returned.
\<close>

definition started :: "event list \<Rightarrow> bool" where
  "started evs = foldl (\<lambda>acc e. case e of Start i t \<Rightarrow> True | _ \<Rightarrow> acc) False evs"

definition last_fetch :: "event list \<Rightarrow> (error + ShowerHead list option) option" where
  "last_fetch evs = foldl (\<lambda>acc e. case e of Fetch i res \<Rightarrow> Some res | _ \<Rightarrow> acc) None evs"

text \<open>
  The gauges expected for one device record: its six device gauges, one gauge for each
  threshold entry, five gauges for each of its showers.
\<close>

definition device_group :: "ShowerHead \<Rightarrow> Metric list" where
  "device_group h =
     (let labels = [DeviceUUID h, Type h, Label h] in
      [\<lparr>m_desc = showerHeadDesc, m_type = GaugeValue, m_value = 1, m_labels = labels\<rparr>,
       \<lparr>m_desc = updatedDesc, m_type = GaugeValue, m_value = convertTime (LastSyncDate h),
          m_labels = labels\<rparr>,
       \<lparr>m_desc = showerHeadRefShowerDurationDesc, m_type = GaugeValue,
          m_value = real_of_int (sint (RefShowerDuration h)), m_labels = labels\<rparr>,
       \<lparr>m_desc = showerHeadRefFlowDesc, m_type = GaugeValue,
          m_value = real_of_int (sint (PreviousFlow h)), m_labels = labels\<rparr>,
       \<lparr>m_desc = showerHeadAvgFlowDesc, m_type = GaugeValue, m_value = Flow h,
          m_labels = labels\<rparr>,
       \<lparr>m_desc = showerHeadLastSyncIsCompleteDesc, m_type = GaugeValue,
          m_value = real_of_int (sint (IsLastSyncComplete h)), m_labels = labels\<rparr>])"

definition threshold_group :: "ShowerHead \<Rightarrow> Threshold list \<Rightarrow> Metric list" where
  "threshold_group h ths =
     map (\<lambda>th. \<lparr>m_desc = showerHeadThresholdRequestDesc, m_type = GaugeValue,
                  m_value = Liter th, m_labels = [DeviceUUID h, Type h, Label h, Color th]\<rparr>)
       ths"

definition shower_group :: "ShowerHead \<Rightarrow> Metric list" where
  "shower_group h =
     concat (map (\<lambda>sh.
       [\<lparr>m_desc = showerFlowDesc, m_type = GaugeValue, m_value = sh_Flow sh,
          m_labels = [sh_DeviceUUID sh, ShowerID sh]\<rparr>,
        \<lparr>m_desc = showerDurationDesc, m_type = GaugeValue, m_value = Duration sh,
          m_labels = [sh_DeviceUUID sh, ShowerID sh]\<rparr>,
        \<lparr>m_desc = showerTemperatureDesc, m_type = GaugeValue, m_value = Temperature sh,
          m_labels = [sh_DeviceUUID sh, ShowerID sh]\<rparr>,
        \<lparr>m_desc = showerVolumeDesc, m_type = GaugeValue, m_value = Volume sh,
          m_labels = [sh_DeviceUUID sh, ShowerID sh]\<rparr>,
        \<lparr>m_desc = showerSoapingTimeDesc, m_type = GaugeValue, m_value = SoapingTime sh,
          m_labels = [sh_DeviceUUID sh, ShowerID sh]\<rparr>]) (Showers h))"

definition unmarshal_log :: "error option \<Rightarrow> log_entry list" where
  "unmarshal_log err =
     (case err of
        None \<Rightarrow> []
      | Some e \<Rightarrow> [(Error, [LStr ''msg'', LStr ''Error unmarshalling thresholds: %s'',
                            LErr (Some e)])])"

definition devices_metrics ::
  "(string \<Rightarrow> error option \<times> Threshold list) \<Rightarrow> ShowerHead list option \<Rightarrow> Metric list" where
  "devices_metrics um d =
     (case d of
        None \<Rightarrow> []
      | Some heads \<Rightarrow>
          concat (map (\<lambda>h. device_group h
                            @ threshold_group h (snd (um (ThresholdRequest h)))
                            @ shower_group h) heads))"





text \<open>
  Invariants of the runs from \<open>New_sys\<close>: on the times, on the up gauge's inputs, on the
  tasks' results, on the lock together with the cache, and on what a scrape has sent.
\<close>

definition inv_lo :: "Sys \<Rightarrow> bool" where
  "inv_lo s \<longleftrightarrow>
     refreshInterval (coll s) = 10 \<and> 0 \<le> lastRefresh (coll s)
     \<and> (\<forall>i < length (tasks s). 10 \<le> t_now (tasks s ! i))"

definition inv_hi :: "time \<Rightarrow> Sys \<Rightarrow> bool" where
  "inv_hi M s \<longleftrightarrow>
     lastRefresh (coll s) \<le> M \<and> (\<forall>i < length (tasks s). t_now (tasks s ! i) \<le> M)"

definition inv_up :: "event list \<Rightarrow> Sys \<Rightarrow> bool" where
  "inv_up evs s \<longleftrightarrow>
     (lastRefresh (coll s) = 0 \<longleftrightarrow> \<not> started evs)
     \<and> lastRefreshError (coll s)
         = (case last_fetch evs of Some (Inl err) \<Rightarrow> Some err | _ \<Rightarrow> None)"





section \<open>Example inputs\<close>

text \<open>
  An upstream that answers every request with status 200 and a body that decodes to
  nothing new, and an upstream that cannot be reached.
\<close>

definition env_ok :: Env where
  "env_ok = \<lparr>urlParse = (\<lambda>u. None),
             Do = (\<lambda>req. Inr \<lparr>StatusCode = 200, RespBody = ''''\<rparr>),
             DecodeSession = (\<lambda>b h. (None, h)),
             DecodeShowerHeads = (\<lambda>b hs. (None, hs))\<rparr>"


text \<open>A session whose token lives for an hour and was renewed at second 1000.\<close>

definition st_hour :: St where
  "st_hour =
     \<lparr>client = \<lparr>httpResponse = None,
                 hydrao = \<lparr>AccessToken = ''tok'', RefreshToken = ''ref'', ExpiresIn = 3600,
                           TokenRefresh = 1000 * Second,
                           Config = \<lparr>Email = ''a@b'', Password = ''pw'', ApiKey = ''key''\<rparr>\<rparr>,
                 showerHeads = None\<rparr>,
      wire = [], logged = []\<rparr>"

text \<open>An instant late in the year 2025.\<close>

definition T0 :: time where
  "T0 = 63900000000 * Second"

text \<open>
  Two behaviours of \<open>json.Unmarshal\<close> on a threshold document. The first finds an empty
  list in every document. The second meets, in one document, a value of the wrong type in
  the second entry: as Go's decoder does for an \<open>UnmarshalTypeError\<close>, it skips that field,
  completes the decoding and returns the error with the entries it has decoded.
\<close>

definition um_ok :: "string \<Rightarrow> error option \<times> Threshold list" where
  "um_ok doc = (None, [])"

definition doc_bad :: string where
  \<open>doc_bad = ''[{"liter":5,"color":"green"},{"liter":"x"}]''\<close>

definition um_partial :: "string \<Rightarrow> error option \<times> Threshold list" where
  "um_partial doc =
     (if doc = doc_bad
      then (Some (LibError ''json: cannot unmarshal string into Go struct field''),
            [\<lparr>Liter = 5, Color = ''green''\<rparr>, \<lparr>Liter = 0, Color = ''''\<rparr>])
      else (None, []))"

definition head_good :: ShowerHead where
  "head_good = \<lparr>DeviceUUID = ''dev-1'', ThresholdRequest = ''[]'', Label = ''bath'',
                PreviousFlow = 9, Type = ''aloe'', LastSyncDate = T0, RefShowerDuration = 300,
                IsLastSyncComplete = 1, Flow = 8, Showers = []\<rparr>"

definition head_bad :: ShowerHead where
  "head_bad = \<lparr>DeviceUUID = ''dev-2'', ThresholdRequest = doc_bad, Label = ''guest'',
               PreviousFlow = 7, Type = ''aloe'', LastSyncDate = T0, RefShowerDuration = 240,
               IsLastSyncComplete = 0, Flow = 6, Showers = []\<rparr>"

text \<open>
  Runs: a first scrape; the task it launched has started; its fetch has succeeded; it has
  committed and returned, and a second scrape has been served.
\<close>

definition evs_launched :: "event list" where
  "evs_launched = [Scrape T0]"

definition evs_fetching :: "event list" where
  "evs_fetching = [Scrape T0, Start 0 T0]"

definition evs_fetched :: "event list" where
  "evs_fetched = [Scrape T0, Start 0 T0, Fetch 0 (Inr (Some [head_good]))]"

definition evs_served :: "event list" where
  "evs_served = [Scrape T0, Start 0 T0, Fetch 0 (Inr (Some [head_good])), Lock 0, Write 0,
                 Return 0 (T0 + Second), Scrape (T0 + 2 * Second), RLock 1, Read 1]"

definition sys_of :: "event list \<Rightarrow> Sys" where
  "sys_of evs = (case run um_ok evs New_sys of Some s \<Rightarrow> s | None \<Rightarrow> New_sys)"

section \<open>The session: when a renewal happens and what its failure does\<close>

lemmas api_defs = doHTTPGet_def NewRequest_def RefreshSession_def doHTTPPost_def do_req_def
  Header_Set_def Log_def processHTTPResponse_def Sub_def Second_def maxDuration_def
  minDuration_def authURL_def baseURL_def showerheadsURL_def

text \<open>
  The threshold \<open>ExpiresIn * Second - 100 * Second\<close> lies strictly inside the range of a
  duration, so the saturation of \<open>Sub\<close> never changes the outcome of the comparison.
\<close>

lemma Sub_gt_iff:
  "minDuration \<le> th \<Longrightarrow> th < maxDuration \<Longrightarrow> Sub t u > th \<longleftrightarrow> t - u > th"
  by (auto simp: Sub_def)

lemma threshold_range:
  fixes w :: "16 word"
  shows "minDuration \<le> sint w * Second - 100 * Second"
    and "sint w * Second - 100 * Second < maxDuration"
  using sint_ge [of w] sint_lt [of w]
  by (simp_all add: minDuration_def maxDuration_def Second_def)

lemma renewal_due_iff:
  fixes w :: "16 word"
  shows "Sub now tr > sint w * Second - 100 * Second
           \<longleftrightarrow> (sint w - 100) * 1000000000 < now - tr"
  using Sub_gt_iff [OF threshold_range, of w now tr] by (simp add: Second_def algebra_simps)

lemma do_req_wire: "wire (snd (do_req env r s)) = wire s @ [r]"
  by (simp add: do_req_def Let_def split: sum.splits)

lemma Header_Set_Method: "Method (Header_Set k v r) = Method r"
  and Header_Set_URL: "URL (Header_Set k v r) = URL r"
  by (simp_all add: Header_Set_def)

lemma Log_wire: "wire (Log l k s) = wire s"
  and Log_client: "client (Log l k s) = client s"
  by (simp_all add: Log_def)

lemma doHTTPPost_wire:
  assumes "urlParse env url = None"
  shows "\<exists>p. Method p = ''POST'' \<and> URL p = url
           \<and> wire (snd (doHTTPPost env url config data s)) = wire s @ [p]"
  using assms
  by (simp add: doHTTPPost_def NewRequest_def do_req_wire Header_Set_Method Header_Set_URL)


lemma RefreshSession_wire_eq:
  "wire (snd (RefreshSession env now s)) =
   wire (snd (doHTTPPost env authURL (Config (hydrao (client s)))
                (RefreshBody (RefreshToken (hydrao (client s)))) s))"
  by (simp add: RefreshSession_def Let_def split: prod.splits sum.splits option.splits)

lemma RefreshSession_posts:
  assumes "urlParse env authURL = None"
  shows "\<exists>p. Method p = ''POST'' \<and> URL p = authURL
           \<and> wire (snd (RefreshSession env now s)) = wire s @ [p]"
  using doHTTPPost_wire [OF assms] by (simp add: RefreshSession_wire_eq)

text \<open>The renewal neither reads nor writes the log.\<close>

lemma RefreshSession_Log:
  "RefreshSession env now (Log l k s) =
   (fst (RefreshSession env now s), Log l k (snd (RefreshSession env now s)))"
  by (cases "urlParse env authURL";
      cases "Do env \<lparr>Method = ''POST'', URL = authURL,
                      Header = [(''Content-Type'', ''application/json''),
                                (''Accept'', ''application/json''),
                                (''x-api-key'', ApiKey (Config (hydrao (client s))))],
                      ReqBody = RefreshBody (RefreshToken (hydrao (client s)))\<rparr>")
     (auto simp add: RefreshSession_def doHTTPPost_def NewRequest_def do_req_def Log_def
        Header_Set_def Let_def split: prod.splits sum.splits option.splits)

lemma doHTTPGet_unfold:
  assumes "urlParse env url = None"
  shows "doHTTPGet env now now' url config data s =
     (if sint (ExpiresIn (hydrao (client s))) * Second - 100 * Second
            < Sub now (TokenRefresh (hydrao (client s)))
      then (let s1 = Log Debug [LStr ''msg'', LStr ''token expires minus 100 %d'',
                        LInt (sint (ExpiresIn (hydrao (client s))) * Second - 100 * Second)]
                      (Log Debug [LStr ''msg'', LStr ''time since last refresh %d'',
                                  LInt (Sub now (TokenRefresh (hydrao (client s))))]
                        (Log Debug [LStr ''msg'', LStr ''token expires in value %d'',
                                    LInt (sint (ExpiresIn (hydrao (client s))))]
                          (snd (RefreshSession env now' s))))
            in case fst (RefreshSession env now' s) of
                 Some e \<Rightarrow> (Inl e, s1)
               | None \<Rightarrow>
                   do_req env
                     (Header_Set ''Authorization'' (AccessToken (hydrao (client s1)))
                       (Header_Set ''x-api-key'' (ApiKey config)
                         (Header_Set ''Accept'' ''application/json''
                           (Header_Set ''Content-Type'' ''application/json''
                              \<lparr>Method = ''GET'', URL = url, Header = [],
                                 ReqBody = data\<rparr>)))) s1)
      else do_req env
             (Header_Set ''Authorization'' (AccessToken (hydrao (client s)))
               (Header_Set ''x-api-key'' (ApiKey config)
                 (Header_Set ''Accept'' ''application/json''
                   (Header_Set ''Content-Type'' ''application/json''
                      \<lparr>Method = ''GET'', URL = url, Header = [], ReqBody = data\<rparr>)))) s)"
  using assms
  by (simp add: doHTTPGet_def NewRequest_def RefreshSession_Log Let_def Log_client
        split: option.splits)

text \<open>
  Claim C1, as the code has it. When the two URLs are accepted by \<open>http.NewRequest\<close>, an
  authorized GET sends a renewal request (a POST to the session URL) exactly when strictly
  more than the token lifetime minus 100 seconds has passed since the last renewal:
  \<open>now - TokenRefresh > (ExpiresIn - 100) s\<close>. At \<open>now - TokenRefresh = (ExpiresIn - 100) s\<close>
  and below there is no renewal.
\<close>

theorem doHTTPGet_renews_iff:
  assumes "urlParse env url = None" and "urlParse env authURL = None"
  shows "(\<exists>r \<in> set (drop (length (wire s))
                     (wire (snd (doHTTPGet env now now' url config data s)))).
            Method r = ''POST'' \<and> URL r = authURL)
         \<longleftrightarrow> (sint (ExpiresIn (hydrao (client s))) - 100) * 1000000000
               < now - TokenRefresh (hydrao (client s))"
proof (cases "sint (ExpiresIn (hydrao (client s))) * Second - 100 * Second
            < Sub now (TokenRefresh (hydrao (client s)))")
  case True
  obtain p where p: "Method p = ''POST''" "URL p = authURL"
      "wire (snd (RefreshSession env now' s)) = wire s @ [p]"
    using RefreshSession_posts [OF assms(2)] by blast
  have "p \<in> set (drop (length (wire s))
                     (wire (snd (doHTTPGet env now now' url config data s))))"
    using True p(3)
    by (simp add: doHTTPGet_unfold [OF assms(1)] Let_def Log_wire do_req_wire
             split: option.splits)
  with p True show ?thesis
    by (auto simp: renewal_due_iff)
next
  case False
  have "wire (snd (doHTTPGet env now now' url config data s)) = wire s @
     [Header_Set ''Authorization'' (AccessToken (hydrao (client s)))
        (Header_Set ''x-api-key'' (ApiKey config)
          (Header_Set ''Accept'' ''application/json''
            (Header_Set ''Content-Type'' ''application/json''
               \<lparr>Method = ''GET'', URL = url, Header = [], ReqBody = data\<rparr>)))]"
    using False by (simp add: doHTTPGet_unfold [OF assms(1)] do_req_wire)
  with False show ?thesis
    by (simp add: renewal_due_iff Header_Set_Method)
qed

text \<open>
  The theorem at a concrete input: one nanosecond past the threshold of the hour-long
  token, the renewal request is sent.
\<close>

theorem doHTTPGet_renews_iff_witness:
  "(\<exists>r \<in> set (drop (length (wire st_hour))
              (wire (snd (doHTTPGet env_ok (4500 * Second + 1) (4500 * Second + 2)
                            showerheadsURL (Config (hydrao (client st_hour))) NoBody
                            st_hour)))).
      Method r = ''POST'' \<and> URL r = authURL)
   \<and> (sint (ExpiresIn (hydrao (client st_hour))) - 100) * 1000000000
         < 4500 * Second + 1 - TokenRefresh (hydrao (client st_hour))"
proof -
  have h1: "urlParse env_ok showerheadsURL = None" and h2: "urlParse env_ok authURL = None"
    by (simp_all add: env_ok_def)
  have due: "(sint (ExpiresIn (hydrao (client st_hour))) - 100) * 1000000000
         < 4500 * Second + 1 - TokenRefresh (hydrao (client st_hour))"
    by (simp add: st_hour_def Second_def)
  show ?thesis
    using doHTTPGet_renews_iff [OF h1 h2, where s = st_hour and now = "4500 * Second + 1"
            and now' = "4500 * Second + 2" and config = "Config (hydrao (client st_hour))"
            and data = NoBody] due
    by blast
qed

text \<open>
  Claim C1 as it is stated fails at its boundary: with a lifetime of 3600 s and exactly
  3500 s elapsed, the authorized GET sends no renewal request.
\<close>

theorem doHTTPGet_boundary_counterexample:
  "Sub (4500 * Second) (TokenRefresh (hydrao (client st_hour)))
     = sint (ExpiresIn (hydrao (client st_hour))) * Second - 100 * Second
   \<and> \<not> (\<exists>r \<in> set (wire (snd (doHTTPGet env_ok (4500 * Second) (4500 * Second)
                               showerheadsURL (Config (hydrao (client st_hour))) NoBody
                               st_hour))).
          Method r = ''POST'')"
  by (simp add: api_defs env_ok_def st_hour_def)




section \<open>The collector: one refresh, one scrape\<close>

lemma run_append:
  "run um (es @ es') s = (case run um es s of None \<Rightarrow> None | Some s' \<Rightarrow> run um es' s')"
  by (induction es arbitrary: s) (auto split: option.splits)

lemma run_snoc:
  "run um (es @ [e]) s = (case run um es s of None \<Rightarrow> None | Some s' \<Rightarrow> step um e s')"
  by (simp add: run_append split: option.splits)

lemma sendMetric_ok:
  "length labelValues = length (variableLabels desc) \<Longrightarrow>
   sendMetric desc vt v labelValues io =
     (fst io @ [\<lparr>m_desc = desc, m_type = vt, m_value = v, m_labels = labelValues\<rparr>], snd io)"
  by (simp add: sendMetric_def)

lemma Collect_top_eq:
  "Collect_top c io =
     (fst io @
        [\<lparr>m_desc = hydraoUpDesc, m_type = GaugeValue, m_value = upValue c, m_labels = []\<rparr>,
         \<lparr>m_desc = refreshIntervalDesc, m_type = GaugeValue,
            m_value = Seconds (refreshInterval c), m_labels = []\<rparr>,
         \<lparr>m_desc = refreshTimestampDesc, m_type = GaugeValue,
            m_value = convertTime (lastRefresh c), m_labels = []\<rparr>,
         \<lparr>m_desc = refreshDurationDesc, m_type = GaugeValue,
            m_value = Seconds (lastRefreshDuration c), m_labels = []\<rparr>],
      snd io)"
  by (simp add: Collect_top_def sendMetric_ok hydraoUpDesc_def refreshIntervalDesc_def
        refreshTimestampDesc_def refreshDurationDesc_def NewDesc_def)

lemma Collect_cacheTimestamp_eq:
  "Collect_cacheTimestamp ts io =
     (fst io @ [\<lparr>m_desc = cacheTimestampDesc, m_type = GaugeValue,
                  m_value = convertTime ts, m_labels = []\<rparr>], snd io)"
  by (simp add: Collect_cacheTimestamp_def sendMetric_ok cacheTimestampDesc_def NewDesc_def)

lemma Collect_devices_empty:
  "cached = None \<or> cached = Some [] \<Longrightarrow> fst (Collect_devices um cached io) = fst io"
  by (auto simp: Collect_devices_def Let_def)

lemmas run_defs = T0_def um_ok_def um_partial_def doc_bad_def head_good_def head_bad_def
  evs_launched_def evs_fetching_def evs_fetched_def evs_served_def sys_of_def
  New_sys_def New_def Second_def Sub_def maxDuration_def minDuration_def
  Let_def Collect_top_eq Collect_cacheTimestamp_eq Collect_devices_def

lemma run_launched: "run um_ok evs_launched New_sys = Some (sys_of evs_launched)"
  by (simp add: run_defs)

lemma run_fetched: "run um_ok evs_fetched New_sys = Some (sys_of evs_fetched)"
  by (simp add: run_defs)





text \<open>
  Claim C9. In a state whose snapshot is nil or empty (and whose lock no writer holds, so
  that the scrape can finish), \<open>Collect\<close> sends exactly the five top-level gauges (up,
  refresh interval, last refresh time, last refresh duration, cache timestamp) and no
  device group, and it leaves the whole collector state as it was; the one thing it adds to
  the system is the refresh task, when one is due.
\<close>

theorem Collect_empty_snapshot:
  assumes "cachedShowerHeadsData (coll s) = None \<or> cachedShowerHeadsData (coll s) = Some []"
    and "\<not> writer (cacheLock (coll s))"
  shows "\<exists>s'. Collect um now s = Some s'
          \<and> sc_sent (scrapes s' ! length (scrapes s)) =
              [\<lparr>m_desc = hydraoUpDesc, m_type = GaugeValue, m_value = upValue (coll s),
                 m_labels = []\<rparr>,
               \<lparr>m_desc = refreshIntervalDesc, m_type = GaugeValue,
                 m_value = Seconds (refreshInterval (coll s)), m_labels = []\<rparr>,
               \<lparr>m_desc = refreshTimestampDesc, m_type = GaugeValue,
                 m_value = convertTime (lastRefresh (coll s)), m_labels = []\<rparr>,
               \<lparr>m_desc = refreshDurationDesc, m_type = GaugeValue,
                 m_value = Seconds (lastRefreshDuration (coll s)), m_labels = []\<rparr>,
               \<lparr>m_desc = cacheTimestampDesc, m_type = GaugeValue,
                 m_value = convertTime (cacheTimestamp (coll s)), m_labels = []\<rparr>]
          \<and> sc_pc (scrapes s' ! length (scrapes s)) = Returned
          \<and> coll s' = coll s
          \<and> tasks s' = tasks s @
               (if Sub now (lastRefresh (coll s)) \<ge> refreshInterval (coll s)
                then [\<lparr>t_now = now, t_start = 0, t_result = None, t_pc = Spawned\<rparr>] else [])"
  using assms
  by (auto simp add: Collect_def Let_def Collect_top_eq Collect_cacheTimestamp_eq
        Collect_devices_empty)

text \<open>The theorem at a concrete input: the first scrape of a new collector.\<close>

theorem Collect_empty_snapshot_witness:
  "\<exists>s'. Collect um_ok T0 New_sys = Some s'
      \<and> map (fqName \<circ> m_desc) (sc_sent (scrapes s' ! 0)) =
           [''hydrao_up'', ''hydrao_refresh_interval_seconds'', ''hydrao_last_refresh_time'',
            ''hydrao_hydrao_last_refresh_duration_seconds'', ''hydrao_cache_updated_time'']
      \<and> coll s' = coll New_sys
      \<and> tasks s' = [\<lparr>t_now = T0, t_start = 0, t_result = None, t_pc = Spawned\<rparr>]"
proof -
  have h1: "cachedShowerHeadsData (coll New_sys) = None
            \<or> cachedShowerHeadsData (coll New_sys) = Some []"
    and h2: "\<not> writer (cacheLock (coll New_sys))"
    and v: "length (scrapes New_sys) = 0" "tasks New_sys = []"
      "refreshInterval (coll New_sys) \<le> Sub T0 (lastRefresh (coll New_sys))"
    by (simp_all add: run_defs)
  show ?thesis
    using Collect_empty_snapshot [OF h1 h2, of um_ok T0] v
    by (auto simp: hydraoUpDesc_def refreshIntervalDesc_def refreshTimestampDesc_def
          refreshDurationDesc_def cacheTimestampDesc_def NewDesc_def metricPrefix_def
          refreshPrefix_def)
qed

subsection \<open>The device groups and a threshold document that fails to decode\<close>

lemmas desc_defs = showerHeadDesc_def updatedDesc_def showerHeadRefShowerDurationDesc_def
  showerHeadRefFlowDesc_def showerHeadAvgFlowDesc_def showerHeadLastSyncIsCompleteDesc_def
  showerHeadThresholdRequestDesc_def showerFlowDesc_def showerDurationDesc_def
  showerTemperatureDesc_def showerVolumeDesc_def showerSoapingTimeDesc_def
  showerHeadsLabels_def showersLabels_def NewDesc_def

text \<open>Every send of \<open>collectShowerHeadData\<close> has as many label values as its descriptor.\<close>

lemma label_counts:
  "length (variableLabels showerHeadDesc) = 3"
  "length (variableLabels updatedDesc) = 3"
  "length (variableLabels showerHeadRefShowerDurationDesc) = 3"
  "length (variableLabels showerHeadRefFlowDesc) = 3"
  "length (variableLabels showerHeadAvgFlowDesc) = 3"
  "length (variableLabels showerHeadLastSyncIsCompleteDesc) = 3"
  "length (variableLabels showerHeadThresholdRequestDesc) = 4"
  "length (variableLabels showerFlowDesc) = 2"
  "length (variableLabels showerDurationDesc) = 2"
  "length (variableLabels showerTemperatureDesc) = 2"
  "length (variableLabels showerVolumeDesc) = 2"
  "length (variableLabels showerSoapingTimeDesc) = 2"
  by (simp_all add: desc_defs)

lemma fold_thresholds:
  "fold (\<lambda>threshold. sendMetric showerHeadThresholdRequestDesc GaugeValue (Liter threshold)
            [u, t, l, Color threshold]) ths io
   = (fst io @ map (\<lambda>th. \<lparr>m_desc = showerHeadThresholdRequestDesc, m_type = GaugeValue,
                  m_value = Liter th, m_labels = [u, t, l, Color th]\<rparr>) ths, snd io)"
  by (induction ths arbitrary: io) (simp_all add: sendMetric_ok label_counts)

lemma fold_showers:
  "fold (\<lambda>shower io.
             sendMetric showerSoapingTimeDesc GaugeValue (SoapingTime shower)
                 [sh_DeviceUUID shower, ShowerID shower]
               (sendMetric showerVolumeDesc GaugeValue (Volume shower)
                   [sh_DeviceUUID shower, ShowerID shower]
                 (sendMetric showerTemperatureDesc GaugeValue (Temperature shower)
                     [sh_DeviceUUID shower, ShowerID shower]
                   (sendMetric showerDurationDesc GaugeValue (Duration shower)
                       [sh_DeviceUUID shower, ShowerID shower]
                     (sendMetric showerFlowDesc GaugeValue (sh_Flow shower)
                         [sh_DeviceUUID shower, ShowerID shower] io))))) shs io
   = (fst io @ concat (map (\<lambda>sh.
       [\<lparr>m_desc = showerFlowDesc, m_type = GaugeValue, m_value = sh_Flow sh,
          m_labels = [sh_DeviceUUID sh, ShowerID sh]\<rparr>,
        \<lparr>m_desc = showerDurationDesc, m_type = GaugeValue, m_value = Duration sh,
          m_labels = [sh_DeviceUUID sh, ShowerID sh]\<rparr>,
        \<lparr>m_desc = showerTemperatureDesc, m_type = GaugeValue, m_value = Temperature sh,
          m_labels = [sh_DeviceUUID sh, ShowerID sh]\<rparr>,
        \<lparr>m_desc = showerVolumeDesc, m_type = GaugeValue, m_value = Volume sh,
          m_labels = [sh_DeviceUUID sh, ShowerID sh]\<rparr>,
        \<lparr>m_desc = showerSoapingTimeDesc, m_type = GaugeValue, m_value = SoapingTime sh,
          m_labels = [sh_DeviceUUID sh, ShowerID sh]\<rparr>]) shs), snd io)"
  by (induction shs arbitrary: io) (simp_all add: sendMetric_ok label_counts)

lemma collectShowerHeadData_eq:
  "collectShowerHeadData um h (DeviceUUID h) (Type h) (Label h) io =
     (fst io @ device_group h @ threshold_group h (snd (um (ThresholdRequest h)))
        @ shower_group h,
      snd io @ unmarshal_log (fst (um (ThresholdRequest h))))"
  unfolding collectShowerHeadData_def fold_showers fold_thresholds
  by (cases "um (ThresholdRequest h)"; cases "fst (um (ThresholdRequest h))")
     (simp_all add: Let_def sendMetric_ok label_counts device_group_def threshold_group_def
        shower_group_def unmarshal_log_def)

lemma fold_heads:
  "fold (\<lambda>showerHead. collectShowerHeadData um showerHead (DeviceUUID showerHead)
                      (Type showerHead) (Label showerHead)) heads io
   = (fst io @ concat (map (\<lambda>h. device_group h
                               @ threshold_group h (snd (um (ThresholdRequest h)))
                               @ shower_group h) heads),
      snd io @ concat (map (\<lambda>h. unmarshal_log (fst (um (ThresholdRequest h)))) heads))"
  by (induction heads arbitrary: io) (simp_all add: collectShowerHeadData_eq)

lemma Collect_devices_fst:
  "fst (Collect_devices um d io) = fst io @ devices_metrics um d"
  by (cases d) (simp_all add: Collect_devices_def Let_def fold_heads devices_metrics_def)

lemma devices_metrics_member:
  assumes "h \<in> set heads"
  shows "\<exists>pre post. devices_metrics um (Some heads) =
           pre @ device_group h @ threshold_group h (snd (um (ThresholdRequest h)))
               @ shower_group h @ post"
proof -
  from assms obtain xs ys where "heads = xs @ h # ys"
    by (auto simp: in_set_conv_decomp)
  then show ?thesis
    by (auto simp: devices_metrics_def)
qed

text \<open>
  Claim C8, as the code has it. Let the threshold document of a record \<open>h\<close> of the
  snapshot fail to decode, with error \<open>e\<close>, the decoder leaving the entries \<open>ths\<close> in the
  slice. Then the error is logged; the scrape still sends, for every record of the snapshot,
  its six device gauges, its threshold gauges and the gauges of its showers; and the
  threshold gauges sent for \<open>h\<close> are those of the entries \<open>ths\<close>: none when the decoder
  left none, but the code does not skip them on an error.
\<close>

theorem threshold_failure_contained:
  assumes "h \<in> set heads" and "um (ThresholdRequest h) = (Some e, ths)"
  shows "fst (Collect_devices um (Some heads) io) = fst io @ devices_metrics um (Some heads)
       \<and> (\<forall>h' \<in> set heads. \<exists>pre post. devices_metrics um (Some heads) =
             pre @ device_group h' @ threshold_group h' (snd (um (ThresholdRequest h')))
                 @ shower_group h' @ post)
       \<and> (\<exists>pre post. devices_metrics um (Some heads) =
             pre @ device_group h @ threshold_group h ths @ shower_group h @ post)
       \<and> (Error, [LStr ''msg'', LStr ''Error unmarshalling thresholds: %s'', LErr (Some e)])
           \<in> set (snd (Collect_devices um (Some heads) io))"
proof -
  have "unmarshal_log (fst (um (ThresholdRequest h)))
          = [(Error, [LStr ''msg'', LStr ''Error unmarshalling thresholds: %s'',
                      LErr (Some e)])]"
    using assms(2) by (simp add: unmarshal_log_def)
  with assms(1)
  have "(Error, [LStr ''msg'', LStr ''Error unmarshalling thresholds: %s'', LErr (Some e)])
      \<in> set (concat (map (\<lambda>h. unmarshal_log (fst (um (ThresholdRequest h)))) heads))"
    by force
  then have logged: "(Error, [LStr ''msg'', LStr ''Error unmarshalling thresholds: %s'',
                              LErr (Some e)])
      \<in> set (snd (Collect_devices um (Some heads) io))"
    by (simp add: Collect_devices_def Let_def fold_heads)
  have one: "\<exists>pre post. devices_metrics um (Some heads) =
             pre @ device_group h @ threshold_group h ths @ shower_group h @ post"
    using devices_metrics_member [OF assms(1), of um] assms(2) by simp
  from logged one show ?thesis
    by (simp add: Collect_devices_fst devices_metrics_member)
qed

text \<open>
  The theorem at a concrete input: a snapshot of two records, the second with a document
  whose second entry has a value of the wrong type.
\<close>

theorem threshold_failure_contained_witness:
  "fst (Collect_devices um_partial (Some [head_good, head_bad]) ([], [])) =
     device_group head_good @ device_group head_bad
       @ threshold_group head_bad [\<lparr>Liter = 5, Color = ''green''\<rparr>, \<lparr>Liter = 0, Color = ''''\<rparr>]
   \<and> (Error, [LStr ''msg'', LStr ''Error unmarshalling thresholds: %s'',
               LErr (Some (LibError ''json: cannot unmarshal string into Go struct field''))])
       \<in> set (snd (Collect_devices um_partial (Some [head_good, head_bad]) ([], [])))"
proof -
  have h1: "head_bad \<in> set [head_good, head_bad]" by simp
  have h2: "um_partial (ThresholdRequest head_bad) =
      (Some (LibError ''json: cannot unmarshal string into Go struct field''),
       [\<lparr>Liter = 5, Color = ''green''\<rparr>, \<lparr>Liter = 0, Color = ''''\<rparr>])"
    by (simp add: um_partial_def head_bad_def)
  have v: "um_partial (ThresholdRequest head_good) = (None, [])"
    "shower_group head_good = []" "shower_group head_bad = []"
    by (simp_all add: um_partial_def head_good_def head_bad_def doc_bad_def shower_group_def)
  show ?thesis
    using threshold_failure_contained [where um = um_partial and h = head_bad
            and heads = "[head_good, head_bad]" and io = "([], [])", OF h1 h2] v h2
    by (simp add: devices_metrics_def threshold_group_def)
qed

text \<open>
  Claim C8 as it is stated fails: the document of the record fails to decode, and two
  threshold gauges of that record are sent all the same.
\<close>

theorem threshold_failure_counterexample:
  "fst (um_partial (ThresholdRequest head_bad))
     = Some (LibError ''json: cannot unmarshal string into Go struct field'')
   \<and> fst (Collect_devices um_partial (Some [head_bad]) ([], [])) =
       device_group head_bad @
       [\<lparr>m_desc = showerHeadThresholdRequestDesc, m_type = GaugeValue, m_value = 5,
          m_labels = [''dev-2'', ''aloe'', ''guest'', ''green'']\<rparr>,
        \<lparr>m_desc = showerHeadThresholdRequestDesc, m_type = GaugeValue, m_value = 0,
          m_labels = [''dev-2'', ''aloe'', ''guest'', '''']\<rparr>]"
  by (simp add: Collect_devices_fst devices_metrics_def threshold_group_def shower_group_def
        um_partial_def head_bad_def)

section \<open>The collector: runs of interleaved scrapes and refresh tasks\<close>

subsection \<open>Times\<close>

lemma Sub_ge_iff:
  "minDuration < d \<Longrightarrow> d \<le> maxDuration \<Longrightarrow> d \<le> Sub t u \<longleftrightarrow> d \<le> t - u"
  by (auto simp: Sub_def)

lemma Sub_ge_10: "10 \<le> Sub t u \<longleftrightarrow> 10 \<le> t - u"
  by (rule Sub_ge_iff) (simp_all add: minDuration_def maxDuration_def)

lemma inv_lo_New: "inv_lo New_sys"
  by (simp add: inv_lo_def New_sys_def New_def)

lemma inv_lo_step:
  assumes "inv_lo s" and "step um e s = Some s'"
  shows "inv_lo s'"
proof (cases e)
  case (Scrape now)
  with assms show ?thesis
    by (auto simp: inv_lo_def Let_def Sub_ge_10 nth_append split: if_splits)
next
  case (Fetch i res)
  with assms show ?thesis
    by (cases res) (auto simp: inv_lo_def Let_def nth_list_update split: if_splits)
next
  case (Write i)
  with assms show ?thesis
    by (auto simp: inv_lo_def Let_def nth_list_update
          split: if_splits option.splits sum.splits)
qed (use assms in \<open>auto simp: inv_lo_def Let_def nth_list_update split: if_splits\<close>)

lemma inv_hi_step:
  assumes "inv_hi M s" and "step um e s = Some s'" and "\<And>t. e = Scrape t \<Longrightarrow> t \<le> M"
  shows "inv_hi M s'"
proof (cases e)
  case (Scrape now)
  with assms show ?thesis
    by (auto simp: inv_hi_def Let_def nth_append split: if_splits)
next
  case (Fetch i res)
  with assms show ?thesis
    by (cases res) (auto simp: inv_hi_def Let_def nth_list_update split: if_splits)
next
  case (Write i)
  with assms show ?thesis
    by (auto simp: inv_hi_def Let_def nth_list_update
          split: if_splits option.splits sum.splits)
qed (use assms in \<open>auto simp: inv_hi_def Let_def nth_list_update split: if_splits\<close>)

lemma inv_lo_run:
  "run um evs s = Some s' \<Longrightarrow> inv_lo s \<Longrightarrow> inv_lo s'"
  by (induction evs arbitrary: s) (auto split: option.splits dest: inv_lo_step)

lemma inv_hi_run:
  "run um evs s = Some s' \<Longrightarrow> inv_hi M s \<Longrightarrow> (\<And>t. Scrape t \<in> set evs \<Longrightarrow> t \<le> M)
     \<Longrightarrow> inv_hi M s'"
proof (induction evs arbitrary: s)
  case Nil
  then show ?case by simp
next
  case (Cons e es)
  from Cons.prems(1) obtain s1 where s1: "step um e s = Some s1" "run um es s1 = Some s'"
    by (auto split: option.splits)
  have "inv_hi M s1"
    by (rule inv_hi_step [OF Cons.prems(2) s1(1)]) (simp add: Cons.prems(3))
  then show ?case
    by (rule Cons.IH [OF s1(2)]) (simp add: Cons.prems(3))
qed

text \<open>
  Claim C10. \<open>New\<close> sets the refresh interval to 10, that is 10 nanoseconds, and no step
  of the collector changes it. So the refresh interval gauge of every scrape reports
  \<open>10 / 10\<^sup>9\<close> seconds; and a scrape that comes at least 10 nanoseconds after every scrape
  before it (the last of them at \<open>now1\<close>) finds its interval check satisfied and launches a
  refresh task.
\<close>

theorem every_scrape_refreshes:
  assumes "run um evs New_sys = Some s"
    and "\<forall>t. Scrape t \<in> set evs \<longrightarrow> t \<le> now1"
    and "0 \<le> now1" and "now1 + 10 \<le> now2"
  shows "refreshInterval New = 10 \<and> refreshInterval (coll s) = 10
       \<and> (\<exists>s'. step um (Scrape now2) s = Some s'
             \<and> tasks s' = tasks s
                  @ [\<lparr>t_now = now2, t_start = 0, t_result = None, t_pc = Spawned\<rparr>]
             \<and> sc_sent (last (scrapes s')) ! 1 =
                 \<lparr>m_desc = refreshIntervalDesc, m_type = GaugeValue,
                    m_value = 1 / 100000000, m_labels = []\<rparr>)"
proof -
  have lo: "inv_lo s" using inv_lo_run [OF assms(1) inv_lo_New] .
  have "inv_hi now1 New_sys" using assms(3) by (simp add: inv_hi_def New_sys_def New_def)
  then have hi: "inv_hi now1 s" using assms(2) by (auto intro: inv_hi_run [OF assms(1)])
  have sec: "Seconds 10 = 1 / 100000000"
    by (simp add: Seconds_def Second_def signed_divide_int_def signed_modulo_int_def)
  from lo hi assms(4) have due: "10 \<le> Sub now2 (lastRefresh (coll s))"
    by (simp add: Sub_ge_10 inv_lo_def inv_hi_def)
  from lo have ri: "refreshInterval (coll s) = 10" by (simp add: inv_lo_def)
  show ?thesis
    using due ri sec by (simp add: Let_def Collect_top_eq New_def)
qed

text \<open>The theorem at a concrete input: a second scrape 10 nanoseconds after the first.\<close>

theorem every_scrape_refreshes_witness:
  "refreshInterval (coll (sys_of evs_launched)) = 10
   \<and> (\<exists>s'. step um_ok (Scrape (T0 + 10)) (sys_of evs_launched) = Some s'
         \<and> tasks s' = tasks (sys_of evs_launched)
               @ [\<lparr>t_now = T0 + 10, t_start = 0, t_result = None, t_pc = Spawned\<rparr>]
         \<and> sc_sent (last (scrapes s')) ! 1 =
             \<lparr>m_desc = refreshIntervalDesc, m_type = GaugeValue, m_value = 1 / 100000000,
                m_labels = []\<rparr>)"
proof -
  have h2: "\<forall>t. Scrape t \<in> set evs_launched \<longrightarrow> t \<le> T0"
    and h3: "0 \<le> T0" and h4: "T0 + 10 \<le> T0 + 10"
    by (simp_all add: evs_launched_def T0_def Second_def)
  show ?thesis
    using every_scrape_refreshes [OF run_launched h2 h3 h4] by (simp del: step.simps)
qed

subsection \<open>The up gauge\<close>

lemma started_snoc:
  "started (evs @ [e]) = (case e of Start i t \<Rightarrow> True | _ \<Rightarrow> started evs)"
  by (cases e) (simp_all add: started_def)

lemma last_fetch_snoc:
  "last_fetch (evs @ [e]) = (case e of Fetch i res \<Rightarrow> Some res | _ \<Rightarrow> last_fetch evs)"
  by (cases e) (simp_all add: last_fetch_def)

lemma inv_up_step:
  assumes "inv_up evs s" and "inv_lo s" and "step um e s = Some s'"
  shows "inv_up (evs @ [e]) s'"
proof (cases e)
  case (Scrape now)
  with assms show ?thesis
    by (auto simp: inv_up_def started_snoc last_fetch_snoc Let_def)
next
  case (Start i st)
  with assms(3) have i: "i < length (tasks s)"
    and s': "lastRefresh (coll s') = t_now (tasks s ! i)"
      "lastRefreshError (coll s') = lastRefreshError (coll s)"
    by (auto simp: Let_def split: if_splits)
  from assms(2) i have "10 \<le> t_now (tasks s ! i)" by (simp add: inv_lo_def)
  with assms(1) s' Start show ?thesis
    by (simp add: inv_up_def started_snoc last_fetch_snoc)
next
  case (Fetch i res)
  with assms show ?thesis
    by (cases res)
       (auto simp: inv_up_def started_snoc last_fetch_snoc Let_def split: if_splits)
next
  case (Write i)
  with assms show ?thesis
    by (auto simp: inv_up_def started_snoc last_fetch_snoc Let_def
          split: if_splits option.splits sum.splits)
qed (use assms in
      \<open>auto simp: inv_up_def started_snoc last_fetch_snoc Let_def split: if_splits\<close>)

lemma inv_up_run:
  "run um evs New_sys = Some s \<Longrightarrow> inv_up evs s"
proof (induction evs arbitrary: s rule: rev_induct)
  case Nil
  then show ?case
    by (auto simp: inv_up_def started_def last_fetch_def New_sys_def New_def)
next
  case (snoc e evs)
  from snoc.prems obtain s1 where s1: "run um evs New_sys = Some s1" "step um e s1 = Some s"
    by (auto simp: run_snoc split: option.splits)
  show ?case
    using snoc.IH [OF s1(1)] inv_lo_run [OF s1(1) inv_lo_New] s1(2) by (rule inv_up_step)
qed

lemma step_Scrape_up:
  "\<exists>s'. step um (Scrape now) s = Some s'
      \<and> hd (sc_sent (last (scrapes s'))) =
          \<lparr>m_desc = hydraoUpDesc, m_type = GaugeValue, m_value = upValue (coll s),
             m_labels = []\<rparr>"
  by (simp add: Let_def Collect_top_eq)

text \<open>
  Claim C3, as the code has it. After any run of scrapes and refresh tasks from a new
  collector, the up gauge that a scrape sends is 0 exactly when no refresh task has started
  yet or the fetch that returned last returned an error, and 1 otherwise. So it is 0 before
  the first refresh task starts and after a fetch has failed, and 1 after a fetch has
  succeeded; it is 1 as well while the first refresh is still fetching.
\<close>

theorem up_gauge_iff:
  assumes "run um evs New_sys = Some s"
  shows "\<exists>s'. step um (Scrape now) s = Some s'
      \<and> hd (sc_sent (last (scrapes s'))) =
          \<lparr>m_desc = hydraoUpDesc, m_type = GaugeValue,
             m_value = (if \<not> started evs \<or> (\<exists>err. last_fetch evs = Some (Inl err))
                        then 0 else 1),
             m_labels = []\<rparr>"
proof -
  have "upValue (coll s)
          = (if \<not> started evs \<or> (\<exists>err. last_fetch evs = Some (Inl err)) then 0 else 1)"
    using inv_up_run [OF assms]
    by (auto simp: inv_up_def upValue_def IsZero_def split: option.splits sum.splits)
  with step_Scrape_up [of um now s] show ?thesis by simp
qed

text \<open>The theorem at a concrete input: a scrape after the first fetch has succeeded.\<close>

theorem up_gauge_iff_witness:
  "\<exists>s'. step um_ok (Scrape (T0 + Second)) (sys_of evs_fetched) = Some s'
      \<and> hd (sc_sent (last (scrapes s'))) =
          \<lparr>m_desc = hydraoUpDesc, m_type = GaugeValue, m_value = 1, m_labels = []\<rparr>"
proof -
  have v: "started evs_fetched" "last_fetch evs_fetched = Some (Inr (Some [head_good]))"
    by (simp_all add: started_def last_fetch_def evs_fetched_def)
  show ?thesis
    using up_gauge_iff [OF run_fetched, of "T0 + Second"] v by simp
qed

text \<open>
  Claim C3 as it is stated fails: the first refresh task has started and its fetch has not
  returned, so no refresh has succeeded yet, and a scrape one second later sends up = 1.
\<close>

theorem up_gauge_counterexample:
  "last_fetch evs_fetching = None
   \<and> map_option (m_value \<circ> hd \<circ> sc_sent \<circ> last \<circ> scrapes)
        (run um_ok (evs_fetching @ [Scrape (T0 + Second)]) New_sys) = Some 1"
  by (simp add: last_fetch_def run_defs upValue_def IsZero_def)

subsection \<open>Launching refresh tasks\<close>

text \<open>
  Claim C4, as the code has it. A scrape launches a refresh task exactly when
  \<open>now - lastRefresh \<ge> refreshInterval\<close>, whatever refresh tasks are still running: the
  collector has no guard on tasks in flight, and the tasks in flight after the scrape are
  those before it together with the new one. In every case the scrape leaves the collector
  state as it is.
\<close>

theorem scrape_launch_in_flight:
  "\<exists>s'. step um (Scrape now) s = Some s' \<and> coll s' = coll s
     \<and> in_flight s' = in_flight s @
          (if refreshInterval (coll s) \<le> Sub now (lastRefresh (coll s))
           then [\<lparr>t_now = now, t_start = 0, t_result = None, t_pc = Spawned\<rparr>] else [])"
  by (simp add: Let_def in_flight_def)

text \<open>
  Claim C4 as it is stated fails: the first refresh task is still fetching when a scrape
  arrives five seconds later, and that scrape launches a second task.
\<close>

theorem single_flight_counterexample:
  "map_option (map t_pc \<circ> in_flight)
     (run um_ok [Scrape T0, Start 0 T0, Scrape (T0 + 5 * Second)] New_sys)
   = Some [Fetching, Spawned]"
  by (simp add: run_defs in_flight_def)




subsection \<open>The lock, the cache timestamp and the snapshot\<close>




















end
